theory Spec2Isabelle
  imports Complex_Main
begin

section \<open>The covariance-model tools of GSTools (gstools/covmodel/tools.py)\<close>

subsection \<open>Python floats\<close>

text \<open>
  A Python float is an IEEE double. A finite double is represented by the real number it
  denotes, next to the two infinities and NaN. The comparisons and the special cases of
  the arithmetic (infinities, NaN, a zero divisor) follow IEEE 754; on finite operands the
  arithmetic is the exact one of the reals, so rounding, overflow to an infinity and the
  sign of a zero are outside this model.
\<close>

datatype pyfloat = Fin real | PInf | NInf | NaN

text \<open>\<^verbatim>\<open>a < b\<close>: false as soon as one side is NaN.\<close>

fun fless :: "pyfloat \<Rightarrow> pyfloat \<Rightarrow> bool" where
  "fless NaN b = False"
| "fless a NaN = False"
| "fless (Fin a) (Fin b) = (a < b)"
| "fless (Fin a) PInf = True"
| "fless (Fin a) NInf = False"
| "fless NInf NInf = False"
| "fless NInf b = True"
| "fless PInf b = False"

text \<open>\<^verbatim>\<open>a <= b\<close>: false as soon as one side is NaN.\<close>

fun fle :: "pyfloat \<Rightarrow> pyfloat \<Rightarrow> bool" where
  "fle NaN b = False"
| "fle a NaN = False"
| "fle (Fin a) (Fin b) = (a \<le> b)"
| "fle (Fin a) PInf = True"
| "fle (Fin a) NInf = False"
| "fle NInf b = True"
| "fle PInf PInf = True"
| "fle PInf b = False"

text \<open>\<^verbatim>\<open>a > b\<close> and \<^verbatim>\<open>a >= b\<close>.\<close>

definition fgt :: "pyfloat \<Rightarrow> pyfloat \<Rightarrow> bool" where
  "fgt a b = fless b a"

definition fge :: "pyfloat \<Rightarrow> pyfloat \<Rightarrow> bool" where
  "fge a b = fle b a"




text \<open>
  \<^verbatim>\<open>a / b\<close> on doubles as numpy computes it: a zero divisor gives an infinity of the
  sign of the dividend, or NaN for \<^verbatim>\<open>0 / 0\<close>, with a warning and no exception.
\<close>

fun fdiv :: "pyfloat \<Rightarrow> pyfloat \<Rightarrow> pyfloat" where
  "fdiv NaN b = NaN"
| "fdiv a NaN = NaN"
| "fdiv (Fin a) (Fin b) =
     (if b = 0 then (if a = 0 then NaN else if 0 < a then PInf else NInf)
      else Fin (a / b))"
| "fdiv (Fin a) b = Fin 0"
| "fdiv PInf (Fin b) = (if b < 0 then NInf else PInf)"
| "fdiv NInf (Fin b) = (if b < 0 then PInf else NInf)"
| "fdiv a b = NaN"

subsection \<open>Python values, exceptions and sequences\<close>

text \<open>
  The exceptions the functions of the module can end in. The two \<^verbatim>\<open>ValueError\<close>s the
  module raises itself are told apart by what they report: \<open>InvalidAnisotropy\<close> carries
  the anisotropy ratios (\<^verbatim>\<open>"anisotropy-ratios needs to be > 0, got: ..."\<close>),
  \<open>UnknownArgument\<close> the argument name (\<^verbatim>\<open>"check bounds: unknown argument: ..."\<close>).
  \<open>NumpyValueError\<close> is the \<^verbatim>\<open>ValueError\<close> of numpy (a negative array size, padding an
  empty array by its edge); the others are raised by the interpreter.
\<close>

datatype error =
    InvalidAnisotropy "pyfloat list"
  | UnknownArgument string
  | NumpyValueError
  | IndexError
  | TypeError
  | AttributeError

text \<open>Sequencing of computations that may raise: the first exception ends the run.\<close>

fun ebind :: "error + 'a \<Rightarrow> ('a \<Rightarrow> error + 'b) \<Rightarrow> error + 'b" where
  "ebind (Inl e) f = Inl e"
| "ebind (Inr x) f = f x"

text \<open>\<^verbatim>\<open>xs[i]\<close> for an index \<^verbatim>\<open>i >= 0\<close>, and \<^verbatim>\<open>xs[i] = v\<close>.\<close>

definition idx :: "'a list \<Rightarrow> nat \<Rightarrow> error + 'a" where
  "idx xs i = (if i < length xs then Inr (xs ! i) else Inl IndexError)"

definition set_idx :: "'a list \<Rightarrow> nat \<Rightarrow> 'a \<Rightarrow> error + 'a list" where
  "set_idx xs i v = (if i < length xs then Inr (xs[i := v]) else Inl IndexError)"

text \<open>
  The entries a bound sequence can hold: numbers (an \<^verbatim>\<open>int\<close> such as \<^verbatim>\<open>0\<close> compares as
  the float of the same value) and strings.
\<close>

datatype pyval = Num pyfloat | Str string

text \<open>Strings compare by code point, position by position; a proper prefix is smaller.\<close>

fun str_less :: "string \<Rightarrow> string \<Rightarrow> bool" where
  "str_less [] [] = False"
| "str_less [] (y # ys) = True"
| "str_less (x # xs) [] = False"
| "str_less (x # xs) (y # ys) =
     ((of_char x :: nat) < of_char y \<or> (x = y \<and> str_less xs ys))"

definition str_le :: "string \<Rightarrow> string \<Rightarrow> bool" where
  "str_le a b = (a = b \<or> str_less a b)"

text \<open>
  \<^verbatim>\<open>a < b\<close>, \<^verbatim>\<open>a <= b\<close>, \<^verbatim>\<open>a > b\<close>, \<^verbatim>\<open>a >= b\<close> on values: Python 3 raises \<^verbatim>\<open>TypeError\<close> when a
  number meets a string.
\<close>

fun py_lt :: "pyval \<Rightarrow> pyval \<Rightarrow> error + bool" where
  "py_lt (Num a) (Num b) = Inr (fless a b)"
| "py_lt (Str a) (Str b) = Inr (str_less a b)"
| "py_lt a b = Inl TypeError"

fun py_le :: "pyval \<Rightarrow> pyval \<Rightarrow> error + bool" where
  "py_le (Num a) (Num b) = Inr (fle a b)"
| "py_le (Str a) (Str b) = Inr (str_le a b)"
| "py_le a b = Inl TypeError"

definition py_gt :: "pyval \<Rightarrow> pyval \<Rightarrow> error + bool" where
  "py_gt a b = py_lt b a"

definition py_ge :: "pyval \<Rightarrow> pyval \<Rightarrow> error + bool" where
  "py_ge a b = py_le b a"

text \<open>\<^verbatim>\<open>v[i]\<close> on a value: the one-character string at \<^verbatim>\<open>i\<close>; a number has no entries.\<close>

fun subscr :: "pyval \<Rightarrow> nat \<Rightarrow> error + pyval" where
  "subscr (Str s) i = (if i < length s then Inr (Str [s ! i]) else Inl IndexError)"
| "subscr (Num a) i = Inl TypeError"

subsection \<open>\<^verbatim>\<open>rad_fac\<close>\<close>





subsection \<open>\<^verbatim>\<open>set_len_anis\<close>\<close>

text \<open>
  The spatial dimension \<^verbatim>\<open>dim\<close> is written \<open>dimn\<close>. What
  \<^verbatim>\<open>np.array(x, dtype=np.double)\<close> takes here is a scalar or a flat sequence of floats;
  \<^verbatim>\<open>np.atleast_1d\<close> turns the scalar into a sequence of one entry.
\<close>

datatype array_like = Scalar pyfloat | Sequence "pyfloat list"

fun atleast_1d :: "array_like \<Rightarrow> pyfloat list" where
  "atleast_1d (Scalar x) = [x]"
| "atleast_1d (Sequence xs) = xs"

text \<open>\<^verbatim>\<open>xs[:n]\<close>: the first \<^verbatim>\<open>n\<close> entries, or all but the last \<^verbatim>\<open>-n\<close> when \<^verbatim>\<open>n\<close> is negative.\<close>

definition slice_upto :: "'a list \<Rightarrow> int \<Rightarrow> 'a list" where
  "slice_upto xs n = (if 0 \<le> n then take (nat n) xs else take (length xs - nat (- n)) xs)"

text \<open>\<^verbatim>\<open>np.pad(xs, (0, k), "edge")\<close> and \<^verbatim>\<open>np.zeros(n, dtype=np.double)\<close>.\<close>

definition np_pad_edge :: "pyfloat list \<Rightarrow> nat \<Rightarrow> error + pyfloat list" where
  "np_pad_edge xs k = (if xs = [] then Inl NumpyValueError else Inr (xs @ replicate k (last xs)))"

definition np_zeros :: "int \<Rightarrow> error + pyfloat list" where
  "np_zeros n = (if n < 0 then Inl NumpyValueError else Inr (replicate (nat n) (Fin 0)))"

text \<open>\<^verbatim>\<open>range(a, b)\<close>.\<close>

definition py_range :: "int \<Rightarrow> int \<Rightarrow> nat list" where
  "py_range a b = [nat a..<nat b]"

text \<open>
  The loop
  \<^verbatim>\<open>
  for i in range(1, dim):
      out_anis[i - 1] = ls_tmp[i] / ls_tmp[0]
  \<close>
  over the indices still to visit.
\<close>

fun anis_loop :: "pyfloat list \<Rightarrow> nat list \<Rightarrow> pyfloat list \<Rightarrow> error + pyfloat list" where
  "anis_loop ls_tmp [] out_anis = Inr out_anis"
| "anis_loop ls_tmp (i # rest) out_anis =
     ebind (idx ls_tmp i) (\<lambda>a.
     ebind (idx ls_tmp 0) (\<lambda>b.
     ebind (set_idx out_anis (i - 1) (fdiv a b)) (\<lambda>out_anis'.
       anis_loop ls_tmp rest out_anis')))"

text \<open>
  The anisotropy ratios, from the truncated length scales (lines 135 to 144). The
  constructor \<^verbatim>\<open>set_anis\<close> of \<^verbatim>\<open>gstools.tools.geometric\<close> is not part of this module: it
  is the parameter \<open>set_anis\<close>.
  \<^verbatim>\<open>
  if len(ls_tmp) == 1:
      out_anis = set_anis(dim, anis)
  else:
      if len(ls_tmp) < dim:
          ls_tmp = np.pad(ls_tmp, (0, dim - len(ls_tmp)), "edge")
      out_anis = np.zeros(dim - 1, dtype=np.double)
      for i in range(1, dim):
          out_anis[i - 1] = ls_tmp[i] / ls_tmp[0]
  \<close>
\<close>

definition calc_anis ::
  "(int \<Rightarrow> 'a \<Rightarrow> pyfloat list) \<Rightarrow> int \<Rightarrow> pyfloat list \<Rightarrow> 'a \<Rightarrow> error + pyfloat list" where
  "calc_anis set_anis dimn ls_tmp anis =
     (if length ls_tmp = 1 then Inr (set_anis dimn anis)
      else ebind (if int (length ls_tmp) < dimn
                    then np_pad_edge ls_tmp (nat (dimn - int (length ls_tmp)))
                  else Inr ls_tmp) (\<lambda>ls_tmp.
           ebind (np_zeros (dimn - 1)) (\<lambda>out_anis.
             anis_loop ls_tmp (py_range 1 dimn) out_anis)))"

text \<open>
  The check of the ratios: the first one that is not \<^verbatim>\<open>> 0.0\<close> raises, with all of
  \<^verbatim>\<open>out_anis\<close> in the message.
  \<^verbatim>\<open>
  for ani in out_anis:
      if not ani > 0.0:
          raise ValueError("anisotropy-ratios needs to be > 0, " + "got: " + str(out_anis))
  \<close>
\<close>

fun check_anis :: "pyfloat list \<Rightarrow> pyfloat list \<Rightarrow> error + unit" where
  "check_anis out_anis [] = Inr ()"
| "check_anis out_anis (ani # rest) =
     (if \<not> fgt ani (Fin 0) then Inl (InvalidAnisotropy out_anis)
      else check_anis out_anis rest)"

text \<open>
  \<^verbatim>\<open>
  ls_tmp = np.array(len_scale, dtype=np.double)
  ls_tmp = np.atleast_1d(ls_tmp)[:dim]
  out_len_scale = ls_tmp[0]
  ...
  return out_len_scale, out_anis
  \<close>
\<close>

definition set_len_anis ::
  "(int \<Rightarrow> 'a \<Rightarrow> pyfloat list) \<Rightarrow> int \<Rightarrow> array_like \<Rightarrow> 'a
     \<Rightarrow> error + (pyfloat \<times> pyfloat list)" where
  "set_len_anis set_anis dimn len_scale anis =
     (let ls_tmp = slice_upto (atleast_1d len_scale) dimn in
      ebind (idx ls_tmp 0) (\<lambda>out_len_scale.
      ebind (calc_anis set_anis dimn ls_tmp anis) (\<lambda>out_anis.
      ebind (check_anis out_anis out_anis) (\<lambda>_.
        Inr (out_len_scale, out_anis)))))"

text \<open>
  Modelled from the spec: the anisotropy-array constructor \<^verbatim>\<open>set_anis(dim, anis)\<close>, which
  lives in \<^verbatim>\<open>gstools.tools.geometric\<close> and not in this module. The spec gives its contract:
  a sequence of \<^verbatim>\<open>dim - 1\<close> floats, the missing leading values filled with \<^verbatim>\<open>1.0\<close>. It is
  used where a closed statement needs a concrete constructor.
\<close>

definition set_anis_spec :: "int \<Rightarrow> array_like \<Rightarrow> pyfloat list" where
  "set_anis_spec dimn anis =
     (let n = nat (dimn - 1); given = take n (atleast_1d anis)
      in replicate (n - length given) (Fin 1) @ given)"



subsection \<open>\<^verbatim>\<open>check_bounds\<close>\<close>

text \<open>The tuple \<^verbatim>\<open>("oo", "oc", "co", "cc")\<close>.\<close>

definition interval_tags :: "pyval list" where
  "interval_tags = [Str ''oo'', Str ''oc'', Str ''co'', Str ''cc'']"

text \<open>
  \<^verbatim>\<open>
  if len(bounds) not in (2, 3):
      return False
  if bounds[1] <= bounds[0]:
      return False
  if len(bounds) == 3 and bounds[2] not in ("oo", "oc", "co", "cc"):
      return False
  return True
  \<close>
  Membership in the tag tuple is equality with one of its strings, which no number has.
\<close>

definition check_bounds :: "pyval list \<Rightarrow> error + bool" where
  "check_bounds bounds =
     (if length bounds \<noteq> 2 \<and> length bounds \<noteq> 3 then Inr False
      else ebind (idx bounds 1) (\<lambda>u.
           ebind (idx bounds 0) (\<lambda>l.
           ebind (py_le u l) (\<lambda>le.
             if le then Inr False
             else if length bounds = 3
               then ebind (idx bounds 2) (\<lambda>t.
                      if t \<notin> set interval_tags then Inr False else Inr True)
             else Inr True))))"

subsection \<open>Bound specifications and models\<close>

text \<open>
  A bound specification as the covariance model stores it: a pair \<^verbatim>\<open>(lower, upper)\<close> or a
  triple with one of the four interval-type tags.
\<close>

datatype interval_type = OpenOpen | OpenClosed | ClosedOpen | ClosedClosed

datatype bounds = Pair pyfloat pyfloat | Triple pyfloat pyfloat interval_type

text \<open>\<^verbatim>\<open>bounds[0]\<close> and \<^verbatim>\<open>bounds[1]\<close>.\<close>

fun lower :: "bounds \<Rightarrow> pyfloat" where
  "lower (Pair l u) = l"
| "lower (Triple l u t) = l"

fun upper :: "bounds \<Rightarrow> pyfloat" where
  "upper (Pair l u) = u"
| "upper (Triple l u t) = u"

text \<open>The string of a tag, and the sequence that holds a bound specification.\<close>

fun tag_string :: "interval_type \<Rightarrow> string" where
  "tag_string OpenOpen = ''oo''"
| "tag_string OpenClosed = ''oc''"
| "tag_string ClosedOpen = ''co''"
| "tag_string ClosedClosed = ''cc''"

fun bounds_seq :: "bounds \<Rightarrow> pyval list" where
  "bounds_seq (Pair l u) = [Num l, Num u]"
| "bounds_seq (Triple l u t) = [Num l, Num u, Str (tag_string t)]"

text \<open>
  Modelled from the spec: the covariance model class, which is not part of this module.
  The spec gives what this module reads of it: \<^verbatim>\<open>arg_bounds\<close>, a mapping from argument
  names to bound sequences, and numeric attributes read by name. Reading an attribute the
  model does not have raises \<^verbatim>\<open>AttributeError\<close>.
\<close>

record model =
  arg_bounds :: "string \<rightharpoonup> pyval list"
  attrs :: "string \<rightharpoonup> pyfloat"

definition getattr :: "model \<Rightarrow> string \<Rightarrow> error + pyfloat" where
  "getattr m name = (case attrs m name of None \<Rightarrow> Inl AttributeError | Some v \<Rightarrow> Inr v)"

subsection \<open>\<^verbatim>\<open>check_arg_in_bounds\<close>\<close>

text \<open>
  The check of the lower endpoint, from the error case so far:
  \<^verbatim>\<open>
  if bnd[2][0] == "c":
      if val < bnd[0]:
          error_case = 1
  else:
      if val <= bnd[0]:
          error_case = 2
  \<close>
\<close>

definition lower_check :: "pyval list \<Rightarrow> pyval \<Rightarrow> int \<Rightarrow> error + int" where
  "lower_check bnd val error_case =
     ebind (idx bnd 2) (\<lambda>tag.
     ebind (subscr tag 0) (\<lambda>c.
       if c = Str ''c''
       then ebind (idx bnd 0) (\<lambda>lo.
            ebind (py_lt val lo) (\<lambda>below. Inr (if below then 1 else error_case)))
       else ebind (idx bnd 0) (\<lambda>lo.
            ebind (py_le val lo) (\<lambda>below. Inr (if below then 2 else error_case)))))"

text \<open>
  The check of the upper endpoint, which overwrites the error case when it triggers:
  \<^verbatim>\<open>
  if bnd[2][1] == "c":
      if val > bnd[1]:
          error_case = 3
  else:
      if val >= bnd[1]:
          error_case = 4
  \<close>
\<close>

definition upper_check :: "pyval list \<Rightarrow> pyval \<Rightarrow> int \<Rightarrow> error + int" where
  "upper_check bnd val error_case =
     ebind (idx bnd 2) (\<lambda>tag.
     ebind (subscr tag 1) (\<lambda>c.
       if c = Str ''c''
       then ebind (idx bnd 1) (\<lambda>up.
            ebind (py_gt val up) (\<lambda>above. Inr (if above then 3 else error_case)))
       else ebind (idx bnd 1) (\<lambda>up.
            ebind (py_ge val up) (\<lambda>above. Inr (if above then 4 else error_case)))))"

text \<open>
  \<^verbatim>\<open>
  if arg not in model.arg_bounds:
      raise ValueError("check bounds: unknown argument: {}".format(arg))
  bnd = list(model.arg_bounds[arg])
  val = getattr(model, arg) if val is None else val
  error_case = 0
  if len(bnd) == 2:
      bnd.append("cc")  # use closed intervals by default
  ...
  return error_case
  \<close>
  The list \<open>bnd\<close> is a value here, so \<^verbatim>\<open>list(...)\<close> is the identity; the version over a store
  of list objects follows.
\<close>

definition check_arg_in_bounds :: "model \<Rightarrow> string \<Rightarrow> pyfloat option \<Rightarrow> error + int" where
  "check_arg_in_bounds m arg val =
     (case arg_bounds m arg of
        None \<Rightarrow> Inl (UnknownArgument arg)
      | Some stored \<Rightarrow>
          (let bnd = stored in
           ebind (case val of None \<Rightarrow> getattr m arg | Some v \<Rightarrow> Inr v) (\<lambda>val.
           let bnd = (if length bnd = 2 then bnd @ [Str ''cc''] else bnd) in
           ebind (lower_check bnd (Num val) 0) (\<lambda>error_case.
             upper_check bnd (Num val) error_case))))"

text \<open>
  The same function over a store, to see what it writes. A store holds the list and tuple
  objects, an address is a position in it, and \<^verbatim>\<open>model.arg_bounds\<close> maps a name to the
  address of its bound sequence. \<^verbatim>\<open>list(x)\<close> allocates a new object with the entries of
  \<^verbatim>\<open>x\<close>, \<^verbatim>\<open>bnd.append(v)\<close> writes to the object \<^verbatim>\<open>bnd\<close> refers to.
\<close>

type_synonym store = "pyval list list"

definition list_copy :: "store \<Rightarrow> nat \<Rightarrow> nat \<times> store" where
  "list_copy h a = (length h, h @ [h ! a])"

definition list_append :: "store \<Rightarrow> nat \<Rightarrow> pyval \<Rightarrow> store" where
  "list_append h a v = h[a := h ! a @ [v]]"

definition check_arg_in_bounds_store ::
  "store \<Rightarrow> (string \<rightharpoonup> nat) \<Rightarrow> (string \<Rightarrow> error + pyfloat) \<Rightarrow> string \<Rightarrow> pyfloat option
     \<Rightarrow> (error + int) \<times> store" where
  "check_arg_in_bounds_store h bounds_at attr arg val =
     (case bounds_at arg of
        None \<Rightarrow> (Inl (UnknownArgument arg), h)
      | Some a \<Rightarrow>
          (let (bnd, h) = list_copy h a in
           case (case val of None \<Rightarrow> attr arg | Some v \<Rightarrow> Inr v) of
             Inl e \<Rightarrow> (Inl e, h)
           | Inr val \<Rightarrow>
               (let h = (if length (h ! bnd) = 2 then list_append h bnd (Str ''cc'') else h) in
                (ebind (lower_check (h ! bnd) (Num val) 0) (\<lambda>error_case.
                   upper_check (h ! bnd) (Num val) error_case), h))))"

text \<open>
  The spec's words for the interval type of a bound specification, to compare the code
  with: the tag of a triple, closed-closed for a pair; the first letter of a tag says
  whether the lower endpoint is closed, the second whether the upper endpoint is.
\<close>

fun itype :: "bounds \<Rightarrow> interval_type" where
  "itype (Pair l u) = ClosedClosed"
| "itype (Triple l u t) = t"

fun lower_closed :: "interval_type \<Rightarrow> bool" where
  "lower_closed ClosedOpen = True"
| "lower_closed ClosedClosed = True"
| "lower_closed t = False"

fun upper_closed :: "interval_type \<Rightarrow> bool" where
  "upper_closed OpenClosed = True"
| "upper_closed ClosedClosed = True"
| "upper_closed t = False"

subsection \<open>\<^verbatim>\<open>default_arg_from_bounds\<close>\<close>



section \<open>Properties\<close>



subsection \<open>\<^verbatim>\<open>rad_fac\<close>\<close>





subsection \<open>\<^verbatim>\<open>set_len_anis\<close>\<close>

lemma check_anis_all:
  "check_anis out xs =
     (if \<forall>a\<in>set xs. fgt a (Fin 0) then Inr () else Inl (InvalidAnisotropy out))"
  by (induction xs) auto



lemma calc_anis_single: "length ls = 1 \<Longrightarrow> calc_anis sa dimn ls anis = Inr (sa dimn anis)"
  by (simp add: calc_anis_def)


lemma slice_first:
  assumes "slice_upto xs n \<noteq> []"
  shows "slice_upto xs n ! 0 = xs ! 0"
  using assms by (auto simp: slice_upto_def split: if_splits)

text \<open>Once a ratio sequence is computed, the call returns it or raises with it.\<close>

lemma set_len_anis_result:
  assumes "slice_upto (atleast_1d len_scale) dimn = ls" and "ls \<noteq> []"
    and "calc_anis sa dimn ls anis = Inr out"
  shows "set_len_anis sa dimn len_scale anis
       = (if \<forall>r\<in>set out. fgt r (Fin 0) then Inr (atleast_1d len_scale ! 0, out)
          else Inl (InvalidAnisotropy out))"
proof -
  have "ls ! 0 = atleast_1d len_scale ! 0"
    using assms(1,2) slice_first by blast
  then have "idx ls 0 = Inr (atleast_1d len_scale ! 0)"
    using assms(2) by (simp add: idx_def)
  then show ?thesis
    by (simp add: set_len_anis_def assms(1,3) check_anis_all)
qed




text \<open>
  C2, as stated, fails: the result of the constructor is returned only when each of its
  entries is \<^verbatim>\<open>> 0\<close>. With the constructor of the spec, \<^verbatim>\<open>set_len_anis(2, [1.0], [-1.0])\<close> gets
  the ratios \<^verbatim>\<open>[-1.0]\<close> from it and raises instead of returning \<^verbatim>\<open>(1.0, [-1.0])\<close>.
\<close>

theorem set_len_anis_negative_anis_counterexample:
  "slice_upto (atleast_1d (Sequence [Fin 1])) 2 = [Fin 1]
   \<and> set_anis_spec 2 (Sequence [Fin (- 1)]) = [Fin (- 1)]
   \<and> set_len_anis set_anis_spec 2 (Sequence [Fin 1]) (Sequence [Fin (- 1)])
       = Inl (InvalidAnisotropy [Fin (- 1)])"
  by (simp add: set_len_anis_def slice_upto_def idx_def calc_anis_def set_anis_spec_def fgt_def)

text \<open>
  C2, amended: for every \<^verbatim>\<open>dim\<close> (in particular every \<^verbatim>\<open>dim >= 1\<close>) and every \<^verbatim>\<open>anis\<close>, if
  \<^verbatim>\<open>len_scale\<close> coerces, after truncation to at most \<^verbatim>\<open>dim\<close> entries, to a sequence with
  exactly one entry, that entry is the first entry of \<^verbatim>\<open>len_scale\<close> and the anisotropy
  ratios are exactly the result of the external constructor \<^verbatim>\<open>set_anis\<close> called with
  \<^verbatim>\<open>(dim, anis)\<close>: if each of them is \<^verbatim>\<open>> 0\<close>, \<^verbatim>\<open>set_len_anis\<close> returns the entry with these
  ratios, and otherwise it raises \<open>InvalidAnisotropy\<close> carrying them. The entries of
  \<^verbatim>\<open>len_scale\<close> beyond the first play no role in the ratios.
\<close>

theorem set_len_anis_single:
  assumes "slice_upto (atleast_1d len_scale) dimn = [x]"
  shows "x = atleast_1d len_scale ! 0
       \<and> set_len_anis sa dimn len_scale anis
           = (if \<forall>r\<in>set (sa dimn anis). fgt r (Fin 0) then Inr (x, sa dimn anis)
              else Inl (InvalidAnisotropy (sa dimn anis)))"
proof -
  have "slice_upto (atleast_1d len_scale) dimn ! 0 = atleast_1d len_scale ! 0"
    by (rule slice_first) (simp add: assms)
  then have x: "x = atleast_1d len_scale ! 0" by (simp add: assms)
  have "set_len_anis sa dimn len_scale anis
           = (if \<forall>r\<in>set (sa dimn anis). fgt r (Fin 0)
              then Inr (atleast_1d len_scale ! 0, sa dimn anis)
              else Inl (InvalidAnisotropy (sa dimn anis)))"
    by (rule set_len_anis_result [OF assms]) (simp_all add: calc_anis_single)
  with x show ?thesis by simp
qed

theorem set_len_anis_single_witness:
  "set_anis_spec 3 (Sequence [Fin (1/2)]) = [Fin 1, Fin (1/2)]
   \<and> set_len_anis set_anis_spec 3 (Sequence [Fin 2]) (Sequence [Fin (1/2)])
       = Inr (Fin 2, [Fin 1, Fin (1/2)])
   \<and> set_len_anis set_anis_spec 1 (Sequence [Fin 2, Fin 4]) (Sequence [Fin (1/2)])
       = Inr (Fin 2, [])"
proof -
  have a: "set_anis_spec 3 (Sequence [Fin (1/2)]) = [Fin 1, Fin (1/2)]"
    and b: "set_anis_spec 1 (Sequence [Fin (1/2)]) = []"
    by (simp_all add: set_anis_spec_def)
  have s: "slice_upto (atleast_1d (Sequence [Fin 2])) 3 = [Fin 2]"
    and t: "slice_upto (atleast_1d (Sequence [Fin 2, Fin 4])) 1 = [Fin 2]"
    by (simp_all add: slice_upto_def)
  from set_len_anis_single [OF s, of set_anis_spec "Sequence [Fin (1/2)]"]
    set_len_anis_single [OF t, of set_anis_spec "Sequence [Fin (1/2)]"]
  show ?thesis
    by (simp add: a b fgt_def)
qed




subsection \<open>\<^verbatim>\<open>check_bounds\<close>\<close>

lemma fle_not_iff: "\<not> fle u l \<longleftrightarrow> fgt u l \<or> u = NaN \<or> l = NaN"
  by (cases u; cases l) (auto simp: fgt_def)

text \<open>
  C4, as stated, fails twice. The code rejects a sequence when \<^verbatim>\<open>bounds[1] <= bounds[0]\<close>
  holds, which is not the same as accepting it only when \<^verbatim>\<open>bounds[1] > bounds[0]\<close>: with a
  NaN endpoint both comparisons are false, so \<^verbatim>\<open>check_bounds([nan, 1.0])\<close> is true although
  \<^verbatim>\<open>1.0 > nan\<close> is not. And the comparison can raise: \<^verbatim>\<open>check_bounds([0, "x"])\<close> ends in
  \<^verbatim>\<open>TypeError\<close>, since Python 3 does not order a string against a number.
\<close>

theorem check_bounds_nan_counterexample:
  "check_bounds [Num NaN, Num (Fin 1)] = Inr True
   \<and> \<not> fgt (Fin 1) NaN
   \<and> check_bounds [Num (Fin 0), Str ''x''] = Inl TypeError"
  by (simp add: check_bounds_def idx_def fgt_def)

text \<open>
  C4, amended: a sequence whose length is neither 2 nor 3 gives false. A sequence of
  length 2 or 3 whose first two entries are numbers never raises, and gives true if and
  only if \<^verbatim>\<open>bounds[1] <= bounds[0]\<close> is false (that is \<^verbatim>\<open>bounds[1] > bounds[0]\<close>, so that an
  interval of zero width is rejected, or one of the two is NaN) and, when the length is 3,
  \<^verbatim>\<open>bounds[2]\<close> is one of the four tags \<^verbatim>\<open>"oo"\<close>, \<^verbatim>\<open>"oc"\<close>, \<^verbatim>\<open>"co"\<close>, \<^verbatim>\<open>"cc"\<close>. A sequence of length 2
  or 3 that begins with a number and a string, in either order, raises \<^verbatim>\<open>TypeError\<close>.
  In particular \<^verbatim>\<open>check_bounds([0,1])\<close> is true and \<^verbatim>\<open>check_bounds([1,0])\<close>,
  \<^verbatim>\<open>check_bounds([0,1,"xx"])\<close> and \<^verbatim>\<open>check_bounds([0,1,2,3])\<close> are false.
\<close>

theorem check_bounds_numeric:
  "(length bounds \<noteq> 2 \<and> length bounds \<noteq> 3 \<longrightarrow> check_bounds bounds = Inr False)
   \<and> ((length bounds = 2 \<or> length bounds = 3) \<and> bounds ! 0 = Num l \<and> bounds ! 1 = Num u \<longrightarrow>
        check_bounds bounds =
          Inr (\<not> fle u l \<and> (length bounds = 3 \<longrightarrow> bounds ! 2 \<in> set interval_tags)))
   \<and> (\<not> fle u l \<longleftrightarrow> fgt u l \<or> u = NaN \<or> l = NaN)
   \<and> ((length bounds = 2 \<or> length bounds = 3)
        \<and> (bounds ! 0 = Num l \<and> bounds ! 1 = Str s \<or> bounds ! 0 = Str s \<and> bounds ! 1 = Num u) \<longrightarrow>
        check_bounds bounds = Inl TypeError)"
proof (intro conjI)
  show "length bounds \<noteq> 2 \<and> length bounds \<noteq> 3 \<longrightarrow> check_bounds bounds = Inr False"
    by (simp add: check_bounds_def)
  show "(length bounds = 2 \<or> length bounds = 3) \<and> bounds ! 0 = Num l \<and> bounds ! 1 = Num u \<longrightarrow>
        check_bounds bounds =
          Inr (\<not> fle u l \<and> (length bounds = 3 \<longrightarrow> bounds ! 2 \<in> set interval_tags))"
    by (auto simp: check_bounds_def idx_def)
  show "\<not> fle u l \<longleftrightarrow> fgt u l \<or> u = NaN \<or> l = NaN"
    by (rule fle_not_iff)
  show "(length bounds = 2 \<or> length bounds = 3)
        \<and> (bounds ! 0 = Num l \<and> bounds ! 1 = Str s \<or> bounds ! 0 = Str s \<and> bounds ! 1 = Num u) \<longrightarrow>
        check_bounds bounds = Inl TypeError"
    by (auto simp: check_bounds_def idx_def)
qed

theorem check_bounds_numeric_witness:
  "check_bounds [Num (Fin 0), Num (Fin 1)] = Inr True
   \<and> check_bounds [Num (Fin 1), Num (Fin 0)] = Inr False
   \<and> check_bounds [Num (Fin 0), Num (Fin 1), Str ''xx''] = Inr False
   \<and> check_bounds [Num (Fin 0), Num (Fin 1), Str ''oc''] = Inr True
   \<and> check_bounds [Num (Fin 0), Num (Fin 1), Num (Fin 2), Num (Fin 3)] = Inr False
   \<and> check_bounds [Num (Fin 1), Num (Fin 1), Str ''cc''] = Inr False
   \<and> check_bounds [Str ''a'', Num (Fin 1), Str ''cc''] = Inl TypeError"
  using check_bounds_numeric [of "[Num (Fin 0), Num (Fin 1)]" "Fin 0" "Fin 1"]
    check_bounds_numeric [of "[Num (Fin 1), Num (Fin 0)]" "Fin 1" "Fin 0"]
    check_bounds_numeric [of "[Num (Fin 0), Num (Fin 1), Str ''xx'']" "Fin 0" "Fin 1"]
    check_bounds_numeric [of "[Num (Fin 0), Num (Fin 1), Str ''oc'']" "Fin 0" "Fin 1"]
    check_bounds_numeric [of "[Num (Fin 0), Num (Fin 1), Num (Fin 2), Num (Fin 3)]" "Fin 0" "Fin 1"]
    check_bounds_numeric [of "[Num (Fin 1), Num (Fin 1), Str ''cc'']" "Fin 1" "Fin 1"]
    check_bounds_numeric [of "[Str ''a'', Num (Fin 1), Str ''cc'']" "Fin 1" "Fin 1" "''a''"]
  by (simp add: interval_tags_def)

subsection \<open>\<^verbatim>\<open>check_arg_in_bounds\<close>\<close>

lemma fle_trans: "fle a b \<Longrightarrow> fle b c \<Longrightarrow> fle a c"
  by (cases a; cases b; cases c) auto

lemma fless_imp_fle: "fless a b \<Longrightarrow> fle a b"
  by (cases a; cases b) auto

lemma fless_not_fle: "fless a b \<Longrightarrow> \<not> fle b a"
  by (cases a; cases b) auto

lemma bounds_check_value:
  "ebind (lower_check (if length (bounds_seq b) = 2 then bounds_seq b @ [Str ''cc'']
                       else bounds_seq b) (Num v) 0)
     (upper_check (if length (bounds_seq b) = 2 then bounds_seq b @ [Str ''cc'']
                   else bounds_seq b) (Num v))
   = Inr (if upper_closed (itype b) \<and> fgt v (upper b) then 3
          else if \<not> upper_closed (itype b) \<and> fge v (upper b) then 4
          else if lower_closed (itype b) \<and> fless v (lower b) then 1
          else if \<not> lower_closed (itype b) \<and> fle v (lower b) then 2
          else 0)"
proof (cases b)
  case (Pair l u)
  then show ?thesis
    by (simp add: lower_check_def upper_check_def idx_def py_gt_def py_ge_def fgt_def fge_def)
next
  case (Triple l u t)
  then show ?thesis
    by (cases t)
      (simp_all add: lower_check_def upper_check_def idx_def py_gt_def py_ge_def fgt_def fge_def)
qed

lemma check_arg_in_bounds_value:
  assumes "arg_bounds m arg = Some (bounds_seq b)"
  shows "check_arg_in_bounds m arg (Some v) =
     Inr (if upper_closed (itype b) \<and> fgt v (upper b) then 3
          else if \<not> upper_closed (itype b) \<and> fge v (upper b) then 4
          else if lower_closed (itype b) \<and> fless v (lower b) then 1
          else if \<not> lower_closed (itype b) \<and> fle v (lower b) then 2
          else 0)"
  unfolding check_arg_in_bounds_def Let_def
  by (simp only: assms option.case ebind.simps bounds_check_value)











text \<open>
  The store version returns what the version on values returns, when the store holds at
  the address a name refers to the sequence the model maps the name to.
\<close>

lemma check_arg_in_bounds_store_agrees:
  assumes "bounds_at arg = Some a" and "a < length h" and "arg_bounds m arg = Some (h ! a)"
  shows "fst (check_arg_in_bounds_store h bounds_at (getattr m) arg val)
       = check_arg_in_bounds m arg val"
proof (cases "case val of None \<Rightarrow> getattr m arg | Some v \<Rightarrow> Inr v")
  case (Inl e)
  with assms show ?thesis
    by (simp add: check_arg_in_bounds_store_def check_arg_in_bounds_def list_copy_def)
next
  case (Inr v)
  with assms show ?thesis
    by (simp add: check_arg_in_bounds_store_def check_arg_in_bounds_def list_copy_def
        list_append_def nth_append Let_def)
qed

text \<open>
  C5, as stated, fails where both checks trigger: the claim gives result 1 whenever the
  lower endpoint is closed and \<^verbatim>\<open>val < lower\<close>, but the upper check runs afterwards and
  overwrites the result. For the stored bounds \<^verbatim>\<open>(1, 0)\<close> and \<^verbatim>\<open>val = 0.5\<close> the lower endpoint
  is closed and \<^verbatim>\<open>0.5 < 1\<close>, and the result is 3, not 1.
\<close>

theorem check_arg_in_bounds_both_counterexample:
  "lower_closed (itype (Pair (Fin 1) (Fin 0)))
   \<and> fless (Fin (1/2)) (lower (Pair (Fin 1) (Fin 0)))
   \<and> check_arg_in_bounds
        \<lparr>arg_bounds = [''x'' \<mapsto> bounds_seq (Pair (Fin 1) (Fin 0))], attrs = Map.empty\<rparr>
        ''x'' (Some (Fin (1/2))) = Inr 3"
  by (simp add: check_arg_in_bounds_def lower_check_def upper_check_def idx_def py_gt_def)

text \<open>
  C5, amended: for every model, every \<^verbatim>\<open>arg\<close> that is a key of \<^verbatim>\<open>model.arg_bounds\<close> and every
  value \<^verbatim>\<open>val\<close>, \<^verbatim>\<open>check_arg_in_bounds\<close> classifies \<^verbatim>\<open>val\<close> against the bound tuple, a pair or
  a tagged triple of floats, with the interval type defaulting to \<^verbatim>\<open>"cc"\<close> for a pair:
  result 3 when the upper endpoint is closed and \<^verbatim>\<open>val > upper\<close>; result 4 when it is open
  and \<^verbatim>\<open>val >= upper\<close>; otherwise result 1 when the lower endpoint is closed and
  \<^verbatim>\<open>val < lower\<close>; result 2 when it is open and \<^verbatim>\<open>val <= lower\<close>; and result 0 when no check
  triggers. When \<^verbatim>\<open>lower < upper\<close> the two checks never trigger together, and the cases hold
  in the order the claim lists them. With \<^verbatim>\<open>(0,1,"cc")\<close> and \<^verbatim>\<open>val=0\<close> the result is 0, with
  \<^verbatim>\<open>(0,1,"oo")\<close> and \<^verbatim>\<open>val=0\<close> it is 2, with \<^verbatim>\<open>(0,1,"oc")\<close> and \<^verbatim>\<open>val=1\<close> it is 0, with
  \<^verbatim>\<open>(0,1,"co")\<close> and \<^verbatim>\<open>val=1\<close> it is 4.
\<close>

theorem check_arg_in_bounds_classifies:
  assumes "arg_bounds m arg = Some (bounds_seq b)"
  shows "check_arg_in_bounds m arg (Some val) =
           Inr (if upper_closed (itype b) \<and> fgt val (upper b) then 3
                else if \<not> upper_closed (itype b) \<and> fge val (upper b) then 4
                else if lower_closed (itype b) \<and> fless val (lower b) then 1
                else if \<not> lower_closed (itype b) \<and> fle val (lower b) then 2
                else 0)
       \<and> (fless (lower b) (upper b) \<longrightarrow>
           check_arg_in_bounds m arg (Some val) =
             Inr (if lower_closed (itype b) \<and> fless val (lower b) then 1
                  else if \<not> lower_closed (itype b) \<and> fle val (lower b) then 2
                  else if upper_closed (itype b) \<and> fgt val (upper b) then 3
                  else if \<not> upper_closed (itype b) \<and> fge val (upper b) then 4
                  else 0))"
proof -
  note 1 = check_arg_in_bounds_value [OF assms, of val]
  have 2: "\<not> (fle val (lower b) \<and> fle (upper b) val)" if "fless (lower b) (upper b)"
    using that fle_trans fless_not_fle by blast
  have 3: "fless val (lower b) \<Longrightarrow> fle val (lower b)" "fless (upper b) val \<Longrightarrow> fle (upper b) val"
    by (simp_all add: fless_imp_fle)
  show ?thesis
    unfolding 1 using 2 3 by (auto simp: fgt_def fge_def)
qed

theorem check_arg_in_bounds_classifies_witness:
  "check_arg_in_bounds
       \<lparr>arg_bounds = [''x'' \<mapsto> [Num (Fin 0), Num (Fin 1), Str ''cc'']], attrs = Map.empty\<rparr>
       ''x'' (Some (Fin 0)) = Inr 0
   \<and> check_arg_in_bounds
       \<lparr>arg_bounds = [''x'' \<mapsto> [Num (Fin 0), Num (Fin 1), Str ''oo'']], attrs = Map.empty\<rparr>
       ''x'' (Some (Fin 0)) = Inr 2
   \<and> check_arg_in_bounds
       \<lparr>arg_bounds = [''x'' \<mapsto> [Num (Fin 0), Num (Fin 1), Str ''oc'']], attrs = Map.empty\<rparr>
       ''x'' (Some (Fin 1)) = Inr 0
   \<and> check_arg_in_bounds
       \<lparr>arg_bounds = [''x'' \<mapsto> [Num (Fin 0), Num (Fin 1), Str ''co'']], attrs = Map.empty\<rparr>
       ''x'' (Some (Fin 1)) = Inr 4
   \<and> check_arg_in_bounds
       \<lparr>arg_bounds = [''x'' \<mapsto> [Num (Fin 0), Num (Fin 1)]], attrs = Map.empty\<rparr>
       ''x'' (Some (Fin (- 1))) = Inr 1
   \<and> check_arg_in_bounds
       \<lparr>arg_bounds = [''x'' \<mapsto> [Num (Fin 0), Num (Fin 1)]], attrs = Map.empty\<rparr>
       ''x'' (Some (Fin 2)) = Inr 3"
proof -
  have b: "arg_bounds \<lparr>arg_bounds = [''x'' \<mapsto> bounds_seq b], attrs = Map.empty\<rparr> ''x''
      = Some (bounds_seq b)" for b
    by simp
  show ?thesis
    using check_arg_in_bounds_classifies [OF b, of "Triple (Fin 0) (Fin 1) ClosedClosed" "Fin 0"]
      check_arg_in_bounds_classifies [OF b, of "Triple (Fin 0) (Fin 1) OpenOpen" "Fin 0"]
      check_arg_in_bounds_classifies [OF b, of "Triple (Fin 0) (Fin 1) OpenClosed" "Fin 1"]
      check_arg_in_bounds_classifies [OF b, of "Triple (Fin 0) (Fin 1) ClosedOpen" "Fin 1"]
      check_arg_in_bounds_classifies [OF b, of "Pair (Fin 0) (Fin 1)" "Fin (- 1)"]
      check_arg_in_bounds_classifies [OF b, of "Pair (Fin 0) (Fin 1)" "Fin 2"]
    by (simp add: fgt_def fge_def)
qed

text \<open>
  C6: for every model, known argument \<^verbatim>\<open>arg\<close> and value \<^verbatim>\<open>val\<close> such that both the check of
  the lower endpoint and the check of the upper endpoint trigger, \<^verbatim>\<open>check_arg_in_bounds\<close>
  returns the case of the upper endpoint (3 when it is closed, 4 when it is open), not
  that of the lower one; and this happens only when the stored bounds are malformed,
  \<^verbatim>\<open>upper <= lower\<close>.
\<close>

theorem check_arg_in_bounds_upper_overrides:
  assumes "arg_bounds m arg = Some (bounds_seq b)"
    and "if lower_closed (itype b) then fless val (lower b) else fle val (lower b)"
    and "if upper_closed (itype b) then fgt val (upper b) else fge val (upper b)"
  shows "check_arg_in_bounds m arg (Some val) = Inr (if upper_closed (itype b) then 3 else 4)
       \<and> fle (upper b) (lower b)"
proof -
  have "check_arg_in_bounds m arg (Some val) = Inr (if upper_closed (itype b) then 3 else 4)"
    using check_arg_in_bounds_value [OF assms(1), of val] assms(3)
    by (simp split: if_splits)
  moreover have "fle val (lower b)" using assms(2) by (auto simp: fless_imp_fle split: if_splits)
  moreover have "fle (upper b) val"
    using assms(3) by (auto simp: fless_imp_fle fgt_def fge_def split: if_splits)
  ultimately show ?thesis using fle_trans by blast
qed

theorem check_arg_in_bounds_upper_overrides_witness:
  "check_arg_in_bounds
       \<lparr>arg_bounds = [''x'' \<mapsto> [Num (Fin 5), Num (Fin 3)]], attrs = Map.empty\<rparr>
       ''x'' (Some (Fin 4)) = Inr 3
   \<and> check_arg_in_bounds
       \<lparr>arg_bounds = [''x'' \<mapsto> [Num (Fin 2), Num (Fin 2), Str ''oo'']], attrs = Map.empty\<rparr>
       ''x'' (Some (Fin 2)) = Inr 4
   \<and> fle (Fin 3) (Fin 5)"
proof -
  have b: "arg_bounds \<lparr>arg_bounds = [''x'' \<mapsto> bounds_seq b], attrs = Map.empty\<rparr> ''x''
      = Some (bounds_seq b)" for b
    by simp
  have 1: "if lower_closed (itype (Pair (Fin 5) (Fin 3)))
           then fless (Fin 4) (lower (Pair (Fin 5) (Fin 3)))
           else fle (Fin 4) (lower (Pair (Fin 5) (Fin 3)))"
    and 2: "if upper_closed (itype (Pair (Fin 5) (Fin 3)))
           then fgt (Fin 4) (upper (Pair (Fin 5) (Fin 3)))
           else fge (Fin 4) (upper (Pair (Fin 5) (Fin 3)))"
    and 3: "if lower_closed (itype (Triple (Fin 2) (Fin 2) OpenOpen))
           then fless (Fin 2) (lower (Triple (Fin 2) (Fin 2) OpenOpen))
           else fle (Fin 2) (lower (Triple (Fin 2) (Fin 2) OpenOpen))"
    and 4: "if upper_closed (itype (Triple (Fin 2) (Fin 2) OpenOpen))
           then fgt (Fin 2) (upper (Triple (Fin 2) (Fin 2) OpenOpen))
           else fge (Fin 2) (upper (Triple (Fin 2) (Fin 2) OpenOpen))"
    by (simp_all add: fgt_def fge_def)
  show ?thesis
    using check_arg_in_bounds_upper_overrides [OF b 1 2]
      check_arg_in_bounds_upper_overrides [OF b 3 4]
    by simp
qed




text \<open>
  C10: for every model and every known argument \<^verbatim>\<open>arg\<close>, the call leaves the object
  \<^verbatim>\<open>model.arg_bounds[arg]\<close> as it was, and every other object that existed before the call:
  the only new object is the copy \<^verbatim>\<open>list(...)\<close> allocates. When the stored bound tuple has
  two elements, the default tag \<^verbatim>\<open>"cc"\<close> is appended to that copy alone. The mapping
  \<^verbatim>\<open>model.arg_bounds\<close> itself is only read.
\<close>

theorem check_arg_in_bounds_store_frame:
  assumes "bounds_at arg = Some a" and "a < length h"
  shows "snd (check_arg_in_bounds_store h bounds_at attr arg val) ! a = h ! a
       \<and> take (length h) (snd (check_arg_in_bounds_store h bounds_at attr arg val)) = h
       \<and> length (snd (check_arg_in_bounds_store h bounds_at attr arg val)) = Suc (length h)
       \<and> (length (h ! a) = 2 \<and> (val \<noteq> None \<or> (\<exists>v. attr arg = Inr v)) \<longrightarrow>
            snd (check_arg_in_bounds_store h bounds_at attr arg val) ! length h
              = h ! a @ [Str ''cc''])"
proof -
  let ?v = "case val of None \<Rightarrow> attr arg | Some v \<Rightarrow> Inr v"
  show ?thesis
  proof (cases ?v)
    case (Inl e)
    then have "val = None" and "\<nexists>v. attr arg = Inr v" by (auto split: option.splits)
    with Inl assms show ?thesis
      by (simp add: check_arg_in_bounds_store_def list_copy_def nth_append)
  next
    case (Inr v)
    with assms show ?thesis
      by (simp add: check_arg_in_bounds_store_def list_copy_def list_append_def nth_append
          Let_def)
  qed
qed

theorem check_arg_in_bounds_store_frame_witness:
  "snd (check_arg_in_bounds_store [[Num (Fin 0), Num (Fin 1)]] [''x'' \<mapsto> 0] (\<lambda>n. Inr (Fin 7))
          ''x'' None)
     = [[Num (Fin 0), Num (Fin 1)], [Num (Fin 0), Num (Fin 1), Str ''cc'']]
   \<and> fst (check_arg_in_bounds_store [[Num (Fin 0), Num (Fin 1)]] [''x'' \<mapsto> 0]
          (\<lambda>n. Inr (Fin 7)) ''x'' None) = Inr 3"
proof -
  from check_arg_in_bounds_store_frame
    [of "[''x'' \<mapsto> 0]" "''x''" 0 "[[Num (Fin 0), Num (Fin 1)]]" "\<lambda>n. Inr (Fin 7)" None]
  have "snd (check_arg_in_bounds_store [[Num (Fin 0), Num (Fin 1)]] [''x'' \<mapsto> 0]
          (\<lambda>n. Inr (Fin 7)) ''x'' None) ! 0 = [Num (Fin 0), Num (Fin 1)]"
    by simp
  then show ?thesis
    by (simp add: check_arg_in_bounds_store_def list_copy_def list_append_def lower_check_def
        upper_check_def idx_def py_gt_def)
qed

subsection \<open>\<^verbatim>\<open>default_arg_from_bounds\<close>\<close>




end
